theory Spec2Isabelle
  imports Complex_Main
begin

section \<open>Data model\<close>

text \<open>
  The records follow \<^verbatim>\<open>models.UpstreamBalance\<close> and \<^verbatim>\<open>models.UpstreamBalanceLog\<close>.
  Go's \<^verbatim>\<open>int64\<close> identifiers are \<open>int\<close> (no arithmetic is done on them), amounts of
  type \<^verbatim>\<open>float64\<close> are idealised as \<open>real\<close> (no rounding, no infinities, no NaN), and a
  \<^verbatim>\<open>time.Time\<close> stored in a document is a number of nanoseconds. The Mongo \<^verbatim>\<open>_id\<close>
  field is left out.
\<close>

type_synonym Time = int

record UpstreamBalance =
  ChatID :: int
  Balance :: real
  MinBalance :: real
  AlertLimitPerHour :: int
  CreatedAt :: Time
  UpdatedAt :: Time

record UpstreamBalanceLog =
  LogChatID :: int
  UserID :: int
  Delta :: real
  BalanceAfter :: real
  EntryType :: string
  Remark :: string
  OperationID :: string
  LogCreatedAt :: Time

text \<open>
  The two collections of \<^verbatim>\<open>MongoUpstreamBalanceRepository\<close>. \<^verbatim>\<open>upstream_balances\<close> has a
  unique index on \<^verbatim>\<open>chat_id\<close> and is only ever read and written through that key, so it
  is a map from chat id to document; \<^verbatim>\<open>upstream_balance_logs\<close> is the list of inserted
  documents, oldest first.
\<close>

record store =
  balanceColl :: "int \<rightharpoonup> UpstreamBalance"
  balanceLogsColl :: "UpstreamBalanceLog list"

text \<open>
  Every call of the Mongo driver can fail. Which calls fail during one repository
  operation is an input of the model: a predicate on the driver calls the operation makes.
\<close>

datatype db_step =
    StartSession
  | FindOne_logs
  | FindOne_balance
  | FindOneAndUpdate_balance
  | InsertOne_logs
  | CommitTransaction

abbreviation healthy :: "db_step \<Rightarrow> bool" where
  "healthy \<equiv> (\<lambda>_. False)"

datatype error =
    FailedToStartSession
  | BalanceNotFoundForExistingOperation
  | FailedToLoadBalanceForExistingOperation
  | FailedToCheckExistingBalanceLog
  | FailedToUpdateBalance
  | FailedToInsertBalanceLog
  | TransactionFailed
  | FailedToQueryUpstreamBalance
  | FailedToUpdateMinBalance
  | FailedToUpdateAlertLimit
  | NoInterfaceBound
  | QueryBillFailed string string

section \<open>Repository (repository/upstream_balance.go)\<close>

definition GetBalance ::
  "(db_step \<Rightarrow> bool) \<Rightarrow> store \<Rightarrow> int \<Rightarrow> error + UpstreamBalance option" where
  "GetBalance fails s chatID =
     (if fails FindOne_balance then Inl FailedToQueryUpstreamBalance
      else Inr (balanceColl s chatID))"

text \<open>The lookup \<^verbatim>\<open>FindOne({chat_id, operation_id})\<close> on the log collection.\<close>

definition existingLog :: "store \<Rightarrow> int \<Rightarrow> string \<Rightarrow> bool" where
  "existingLog s chatID operationID =
     list_ex (\<lambda>l. LogChatID l = chatID \<and> OperationID l = operationID) (balanceLogsColl s)"

text \<open>
  The upsert \<^verbatim>\<open>$inc balance\<close>, \<^verbatim>\<open>$set updated_at\<close>, \<^verbatim>\<open>$setOnInsert\<close> of
  \<^verbatim>\<open>AdjustBalance\<close>, returning the document after the update.
\<close>

definition incBalance :: "Time \<Rightarrow> store \<Rightarrow> int \<Rightarrow> real \<Rightarrow> UpstreamBalance" where
  "incBalance now s chatID delta =
     (case balanceColl s chatID of
        None \<Rightarrow> \<lparr>ChatID = chatID, Balance = delta, MinBalance = 0, AlertLimitPerHour = 0,
                  CreatedAt = now, UpdatedAt = now\<rparr>
      | Some b \<Rightarrow> b\<lparr>Balance := Balance b + delta, UpdatedAt := now\<rparr>)"

text \<open>
  \<^verbatim>\<open>AdjustBalance\<close> runs in one transaction: when any step fails, nothing is written.
  A replayed operation id returns the stored balance and writes nothing.
\<close>

definition AdjustBalance ::
  "(db_step \<Rightarrow> bool) \<Rightarrow> Time \<Rightarrow> store \<Rightarrow> int \<Rightarrow> int \<Rightarrow> real \<Rightarrow> string \<Rightarrow> string \<Rightarrow> string
     \<Rightarrow> store \<times> (error + UpstreamBalance)" where
  "AdjustBalance fails now s chatID userID delta entryType remark operationID =
     (if fails StartSession then (s, Inl FailedToStartSession)
      else if operationID \<noteq> [] \<and> fails FindOne_logs
        then (s, Inl FailedToCheckExistingBalanceLog)
      else if operationID \<noteq> [] \<and> existingLog s chatID operationID then
        (if fails FindOne_balance then (s, Inl FailedToLoadBalanceForExistingOperation)
         else case balanceColl s chatID of
                None \<Rightarrow> (s, Inl BalanceNotFoundForExistingOperation)
              | Some balance \<Rightarrow> (s, Inr balance))
      else if fails FindOneAndUpdate_balance then (s, Inl FailedToUpdateBalance)
      else
        let balance = incBalance now s chatID delta;
            logEntry = \<lparr>LogChatID = chatID, UserID = userID, Delta = delta,
                        BalanceAfter = Balance balance, EntryType = entryType,
                        Remark = remark, OperationID = operationID, LogCreatedAt = now\<rparr>
        in if fails InsertOne_logs then (s, Inl FailedToInsertBalanceLog)
           else if fails CommitTransaction then (s, Inl TransactionFailed)
           else (\<lparr>balanceColl = (balanceColl s)(chatID \<mapsto> balance),
                  balanceLogsColl = balanceLogsColl s @ [logEntry]\<rparr>, Inr balance))"

definition SetMinBalance ::
  "(db_step \<Rightarrow> bool) \<Rightarrow> Time \<Rightarrow> store \<Rightarrow> int \<Rightarrow> real \<Rightarrow> store \<times> (error + UpstreamBalance)" where
  "SetMinBalance fails now s chatID m =
     (if fails FindOneAndUpdate_balance then (s, Inl FailedToUpdateMinBalance)
      else
        let balance =
              (case balanceColl s chatID of
                 None \<Rightarrow> \<lparr>ChatID = chatID, Balance = 0, MinBalance = m, AlertLimitPerHour = 0,
                           CreatedAt = now, UpdatedAt = now\<rparr>
               | Some b \<Rightarrow> b\<lparr>MinBalance := m, UpdatedAt := now\<rparr>)
        in (s\<lparr>balanceColl := (balanceColl s)(chatID \<mapsto> balance)\<rparr>, Inr balance))"

definition SetAlertLimit ::
  "(db_step \<Rightarrow> bool) \<Rightarrow> Time \<Rightarrow> store \<Rightarrow> int \<Rightarrow> int \<Rightarrow> store \<times> (error + UpstreamBalance)" where
  "SetAlertLimit fails now s chatID limit =
     (if fails FindOneAndUpdate_balance then (s, Inl FailedToUpdateAlertLimit)
      else
        let balance =
              (case balanceColl s chatID of
                 None \<Rightarrow> \<lparr>ChatID = chatID, Balance = 0, MinBalance = 0,
                           AlertLimitPerHour = limit, CreatedAt = now, UpdatedAt = now\<rparr>
               | Some b \<Rightarrow> b\<lparr>AlertLimitPerHour := limit, UpdatedAt := now\<rparr>)
        in (s\<lparr>balanceColl := (balanceColl s)(chatID \<mapsto> balance)\<rparr>, Inr balance))"

text \<open>
  What the store can become after a given moment: any number of further repository
  writes, each with its own arguments and its own driver failures.
\<close>

inductive later :: "store \<Rightarrow> store \<Rightarrow> bool" where
  later_refl: "later s s"
| later_AdjustBalance:
    "later s s' \<Longrightarrow>
     later s (fst (AdjustBalance fails now s' chatID userID delta entryType remark operationID))"
| later_SetMinBalance:
    "later s s' \<Longrightarrow> later s (fst (SetMinBalance fails now s' chatID m))"
| later_SetAlertLimit:
    "later s s' \<Longrightarrow> later s (fst (SetAlertLimit fails now s' chatID limit))"

text \<open>
  A sequence of \<^verbatim>\<open>AdjustBalance\<close> calls for one chat that all carry the same operation
  id; each call has its own driver failures, time, actor, delta, entry type and remark.
\<close>

type_synonym adjust_call = "(db_step \<Rightarrow> bool) \<times> Time \<times> int \<times> real \<times> string \<times> string"

fun AdjustBalance_retries :: "store \<Rightarrow> int \<Rightarrow> string \<Rightarrow> adjust_call list \<Rightarrow> store" where
  "AdjustBalance_retries s chatID operationID [] = s"
| "AdjustBalance_retries s chatID operationID ((fails, now, userID, delta, entryType, remark) # cs) =
     AdjustBalance_retries
       (fst (AdjustBalance fails now s chatID userID delta entryType remark operationID))
       chatID operationID cs"

section \<open>Library functions\<close>

text \<open>
  The Go standard library is not part of the repository. The functions of \<^verbatim>\<open>strings\<close>,
  \<^verbatim>\<open>strconv\<close>, \<^verbatim>\<open>fmt\<close> and \<^verbatim>\<open>time\<close> that the service calls are inputs of the model,
  and so is the type \<open>'t\<close> of a \<^verbatim>\<open>time.Time\<close> used as a calendar instant:
  \<^item> \<open>TrimSpace\<close> is \<^verbatim>\<open>strings.TrimSpace\<close>;
  \<^item> \<open>ParseFloat s\<close> is \<^verbatim>\<open>strconv.ParseFloat(s, 64)\<close>, \<open>None\<close> when it returns an error;
  \<^item> \<open>Sprintf_2f x\<close> is \<^verbatim>\<open>fmt.Sprintf("%.2f", x)\<close>;
  \<^item> \<open>time_Parse layout value\<close> is \<^verbatim>\<open>time.Parse\<close>, \<open>None\<close> when it returns an error;
  \<^item> \<open>time_Format t layout\<close> is \<^verbatim>\<open>t.Format(layout)\<close>;
  \<^item> \<open>startOfDay t\<close> is \<^verbatim>\<open>time.Date(t.Year(), t.Month(), t.Day(), 0, 0, 0, 0, t.Location())\<close>;
  \<^item> \<open>time_Add t d\<close> is \<^verbatim>\<open>t.Add(d)\<close>, with the duration \<open>d\<close> in nanoseconds.
\<close>

record 't lib =
  TrimSpace :: "string \<Rightarrow> string"
  ParseFloat :: "string \<Rightarrow> real option"
  Sprintf_2f :: "real \<Rightarrow> string"
  time_Parse :: "string \<Rightarrow> string \<Rightarrow> 't option"
  time_Format :: "'t \<Rightarrow> string \<Rightarrow> string"
  startOfDay :: "'t \<Rightarrow> 't"
  time_Add :: "'t \<Rightarrow> int \<Rightarrow> 't"

definition time_Second :: int where
  "time_Second = 1000000000"

definition time_Hour :: int where
  "time_Hour = 3600 * time_Second"

text \<open>\<^verbatim>\<open>strings.TrimSuffix\<close> works on bytes and is written out.\<close>

definition TrimSuffix :: "string \<Rightarrow> string \<Rightarrow> string" where
  "TrimSuffix s suffix =
     (if length suffix \<le> length s \<and> drop (length s - length suffix) s = suffix
      then take (length s - length suffix) s else s)"

section \<open>Service (service/upstream_balance.go)\<close>

text \<open>
  The types \<^verbatim>\<open>models.InterfaceBinding\<close>, \<^verbatim>\<open>models.Group\<close> and
  \<^verbatim>\<open>paymentservice.SummaryByPZID\<close> are declared in packages that are not modelled; the
  records hold the fields the service reads. A \<^verbatim>\<open>nil\<close> summary and a \<^verbatim>\<open>nil\<close> item are \<open>None\<close>.
\<close>

record InterfaceBinding =
  ID :: string
  Name :: string
  Rate :: string

record Group =
  TelegramID :: int
  InterfaceBindings :: "InterfaceBinding list"

record SummaryItem =
  ItemDate :: string
  ItemGrossAmount :: string

type_synonym SummaryByPZID = "SummaryItem option list"

record UpstreamSettlementItem =
  InterfaceID :: string
  InterfaceName :: string
  RatePercent :: real
  GrossAmount :: real
  Deduction :: real

record 't SettlementResult =
  ResultBalance :: UpstreamBalance
  Items :: "UpstreamSettlementItem list"
  ResultDeduction :: real
  Target :: 't

text \<open>
  \<^verbatim>\<open>paymentService.GetSummaryByDayByPZID(ctx, id, start, end)\<close>: the billing collaborator,
  an input of the model. \<open>Inl\<close> carries the text of its error.
\<close>

type_synonym 't payment = "string \<Rightarrow> 't \<Rightarrow> 't \<Rightarrow> string + SummaryByPZID option"

definition upstreamLogTypeManualAdd :: string where
  "upstreamLogTypeManualAdd = ''manual_add''"

definition upstreamLogTypeManualSubtract :: string where
  "upstreamLogTypeManualSubtract = ''manual_subtract''"

definition upstreamLogTypeDaily :: string where
  "upstreamLogTypeDaily = ''daily_settlement''"

definition upstreamLogTypeThreshold :: string where
  "upstreamLogTypeThreshold = ''set_min_balance''"

definition shouldWarn :: "UpstreamBalance option \<Rightarrow> bool" where
  "shouldWarn balance =
     (case balance of
        None \<Rightarrow> False
      | Some b \<Rightarrow> if MinBalance b \<le> 0 then False else Balance b < MinBalance b)"

text \<open>
  The service calls \<^verbatim>\<open>repo.AdjustBalance\<close> with six arguments, the last one being the
  remark: it passes no operation id. In the model the operation id of these calls is empty.
\<close>

definition adjust ::
  "(db_step \<Rightarrow> bool) \<Rightarrow> Time \<Rightarrow> store \<Rightarrow> int \<Rightarrow> int \<Rightarrow> real \<Rightarrow> string
     \<Rightarrow> store \<times> (error + UpstreamBalance option \<times> bool)" where
  "adjust fails now s chatID userID delta entryType =
     (if delta = 0 then
        (case GetBalance fails s chatID of
           Inl err \<Rightarrow> (s, Inl err)
         | Inr balance \<Rightarrow> (s, Inr (balance, shouldWarn balance)))
      else
        (case AdjustBalance fails now s chatID userID delta entryType [] [] of
           (s', Inl err) \<Rightarrow> (s', Inl err)
         | (s', Inr updated) \<Rightarrow> (s', Inr (Some updated, shouldWarn (Some updated)))))"

definition Add ::
  "(db_step \<Rightarrow> bool) \<Rightarrow> Time \<Rightarrow> store \<Rightarrow> int \<Rightarrow> int \<Rightarrow> real
     \<Rightarrow> store \<times> (error + UpstreamBalance option \<times> bool)" where
  "Add fails now s chatID userID amount =
     adjust fails now s chatID userID amount upstreamLogTypeManualAdd"

definition Subtract ::
  "(db_step \<Rightarrow> bool) \<Rightarrow> Time \<Rightarrow> store \<Rightarrow> int \<Rightarrow> int \<Rightarrow> real
     \<Rightarrow> store \<times> (error + UpstreamBalance option \<times> bool)" where
  "Subtract fails now s chatID userID amount =
     adjust fails now s chatID userID (- \<bar>amount\<bar>) upstreamLogTypeManualSubtract"

definition Get :: "(db_step \<Rightarrow> bool) \<Rightarrow> store \<Rightarrow> int \<Rightarrow> error + UpstreamBalance option" where
  "Get fails s chatID = GetBalance fails s chatID"

text \<open>
  The service's \<^verbatim>\<open>SetMinBalance\<close> makes two repository calls, each with its own driver
  failures and clock reading; the error of the second call is discarded.
\<close>

definition service_SetMinBalance ::
  "'t lib \<Rightarrow> (db_step \<Rightarrow> bool) \<Rightarrow> Time \<Rightarrow> (db_step \<Rightarrow> bool) \<Rightarrow> Time \<Rightarrow> store \<Rightarrow> int \<Rightarrow> real
     \<Rightarrow> store \<times> (error + UpstreamBalance)" where
  "service_SetMinBalance L fails1 now1 fails2 now2 s chatID m =
     (case SetMinBalance fails1 now1 s chatID m of
        (s', Inl err) \<Rightarrow> (s', Inl err)
      | (s', Inr updated) \<Rightarrow>
          (fst (AdjustBalance fails2 now2 s' chatID 0 0 upstreamLogTypeThreshold
                  (''set_min_balance='' @ Sprintf_2f L m) []),
           Inr updated))"

definition parseRatePercent :: "'t lib \<Rightarrow> string \<Rightarrow> real" where
  "parseRatePercent L rate =
     (let clean = TrimSuffix (TrimSpace L rate) ''%''
      in if clean = [] then 0
         else case ParseFloat L clean of None \<Rightarrow> 0 | Some v \<Rightarrow> v)"

text \<open>The loop of \<^verbatim>\<open>normalizeSummaryDate\<close> over its layouts: the first that parses wins.\<close>

fun parseWithLayouts :: "'t lib \<Rightarrow> string list \<Rightarrow> string \<Rightarrow> 't option" where
  "parseWithLayouts L [] trimmed = None"
| "parseWithLayouts L (layout # layouts) trimmed =
     (case time_Parse L layout trimmed of
        Some t \<Rightarrow> Some t
      | None \<Rightarrow> parseWithLayouts L layouts trimmed)"

definition normalizeSummaryDate :: "'t lib \<Rightarrow> string \<Rightarrow> string" where
  "normalizeSummaryDate L raw =
     (let trimmed = TrimSpace L raw
      in if trimmed = [] then []
         else case parseWithLayouts L
                     [''2006-01-02'', ''2006-01-02 15:04:05'', ''2006/01/02'',
                      ''2006/01/02 15:04:05'', ''2006-01-02T15:04:05Z07:00'',
                      ''2006-01-02T15:04:05.999999999Z07:00''] trimmed of
                Some t \<Rightarrow> time_Format L t ''2006-01-02''
              | None \<Rightarrow>
                  if 10 \<le> length trimmed then
                    (let candidate = take 10 trimmed
                     in case time_Parse L ''2006-01-02'' candidate of
                          Some t \<Rightarrow> time_Format L t ''2006-01-02''
                        | None \<Rightarrow>
                            (case time_Parse L ''2006/01/02'' candidate of
                               Some t \<Rightarrow> time_Format L t ''2006-01-02''
                             | None \<Rightarrow> []))
                  else [])"

text \<open>
  The loop of \<^verbatim>\<open>parseAmountFromSummary\<close>: it skips \<^verbatim>\<open>nil\<close> items and items of another
  day and returns at the first item of the target day, with \<open>0\<close> when its amount does not
  parse.
\<close>

fun amountOfDay :: "'t lib \<Rightarrow> string \<Rightarrow> SummaryItem option list \<Rightarrow> real" where
  "amountOfDay L dateStr [] = 0"
| "amountOfDay L dateStr (None # items) = amountOfDay L dateStr items"
| "amountOfDay L dateStr (Some item # items) =
     (if normalizeSummaryDate L (ItemDate item) \<noteq> dateStr then amountOfDay L dateStr items
      else case ParseFloat L (TrimSpace L (ItemGrossAmount item)) of
             None \<Rightarrow> 0
           | Some amount \<Rightarrow> amount)"

definition parseAmountFromSummary :: "'t lib \<Rightarrow> SummaryByPZID option \<Rightarrow> 't \<Rightarrow> real" where
  "parseAmountFromSummary L summary targetDate =
     (case summary of
        None \<Rightarrow> 0
      | Some items \<Rightarrow> amountOfDay L (time_Format L targetDate ''2006-01-02'') items)"

definition settleBinding ::
  "'t lib \<Rightarrow> 't payment \<Rightarrow> InterfaceBinding \<Rightarrow> 't \<Rightarrow> 't \<Rightarrow> 't \<Rightarrow> error + UpstreamSettlementItem" where
  "settleBinding L pay binding start end' targetDate =
     (case pay (ID binding) start end' of
        Inl err \<Rightarrow> Inl (QueryBillFailed (ID binding) err)
      | Inr summary \<Rightarrow>
          let grossAmount = parseAmountFromSummary L summary targetDate;
              rate = parseRatePercent L (Rate binding);
              deduction = grossAmount * rate / 100
          in Inr \<lparr>InterfaceID = ID binding, InterfaceName = Name binding, RatePercent = rate,
                  GrossAmount = grossAmount, Deduction = deduction\<rparr>)"

text \<open>
  The loop of \<^verbatim>\<open>SettleDaily\<close> over the bindings, with its two accumulators; it returns
  at the first binding whose query fails.
\<close>

fun settleBindings ::
  "'t lib \<Rightarrow> 't payment \<Rightarrow> 't \<Rightarrow> 't \<Rightarrow> 't \<Rightarrow> InterfaceBinding list
     \<Rightarrow> UpstreamSettlementItem list \<Rightarrow> real \<Rightarrow> error + UpstreamSettlementItem list \<times> real" where
  "settleBindings L pay start end' targetDate [] items totalDeduction =
     Inr (items, totalDeduction)"
| "settleBindings L pay start end' targetDate (binding # bindings) items totalDeduction =
     (case settleBinding L pay binding start end' targetDate of
        Inl err \<Rightarrow> Inl err
      | Inr item \<Rightarrow>
          settleBindings L pay start end' targetDate bindings
            (items @ [item]) (totalDeduction + Deduction item))"

definition SettleDaily ::
  "'t lib \<Rightarrow> 't payment \<Rightarrow> (db_step \<Rightarrow> bool) \<Rightarrow> Time \<Rightarrow> store \<Rightarrow> Group \<Rightarrow> 't
     \<Rightarrow> store \<times> (error + 't SettlementResult)" where
  "SettleDaily L pay fails now s grp targetDate =
     (let bindings = InterfaceBindings grp
      in if length bindings = 0 then (s, Inl NoInterfaceBound)
         else
           let start = startOfDay L targetDate;
               end' = time_Add L start (24 * time_Hour - time_Second)
           in case settleBindings L pay start end' targetDate bindings [] 0 of
                Inl err \<Rightarrow> (s, Inl err)
              | Inr (items, totalDeduction) \<Rightarrow>
                  (case AdjustBalance fails now s (TelegramID grp) 0 (- totalDeduction)
                          upstreamLogTypeDaily (time_Format L targetDate ''2006-01-02'') [] of
                     (s', Inl err) \<Rightarrow> (s', Inl err)
                   | (s', Inr balance) \<Rightarrow>
                       (s', Inr \<lparr>ResultBalance = balance, Items = items,
                                 ResultDeduction = totalDeduction, Target = targetDate\<rparr>)))"


section \<open>Balance watcher (upstream_balance_watcher.go)\<close>

text \<open>
  \<open>windowStart\<close> is \<open>None\<close> for the zero \<^verbatim>\<open>time.Time\<close>. The map of the watcher holds one
  state per chat; \<^verbatim>\<open>time.Now()\<close> is an argument, in nanoseconds. The counters are Go
  \<^verbatim>\<open>int\<close>s; \<open>sentCount\<close> is only incremented while it is below the limit, so it cannot
  wrap, and the difference of two clock readings stays far from the range of a
  \<^verbatim>\<open>time.Duration\<close>.
\<close>

record balanceAlertState =
  low :: bool
  windowStart :: "Time option"
  sentCount :: int

definition defaultAlertLimitPerHour :: int where
  "defaultAlertLimitPerHour = 3"

text \<open>
  \<^verbatim>\<open>evaluateBalance\<close> returns the new state map and the alerts it hands to
  \<^verbatim>\<open>sendLowBalanceAlert\<close> (none or one).
\<close>

definition evaluateBalance ::
  "Time \<Rightarrow> (int \<rightharpoonup> balanceAlertState) \<Rightarrow> UpstreamBalance option
     \<Rightarrow> (int \<rightharpoonup> balanceAlertState) \<times> UpstreamBalance list" where
  "evaluateBalance now states balance =
     (case balance of
        None \<Rightarrow> (states, [])
      | Some b \<Rightarrow>
          if MinBalance b \<le> 0 then (states, [])
          else
            let isLow = Balance b < MinBalance b;
                state0 = (case states (ChatID b) of
                            None \<Rightarrow> \<lparr>low = False, windowStart = None, sentCount = 0\<rparr>
                          | Some st \<Rightarrow> st);
                state = (if (case windowStart state0 of
                               None \<Rightarrow> True
                             | Some ws \<Rightarrow> time_Hour \<le> now - ws)
                         then state0\<lparr>windowStart := Some now, sentCount := 0\<rparr>
                         else state0)
            in if \<not> isLow then (states(ChatID b \<mapsto> state\<lparr>low := False\<rparr>), [])
               else if low state then (states(ChatID b \<mapsto> state), [])
               else
                 let limit = (if AlertLimitPerHour b \<le> 0 then defaultAlertLimitPerHour
                              else AlertLimitPerHour b)
                 in if limit \<le> sentCount state then (states(ChatID b \<mapsto> state), [])
                    else (states(ChatID b \<mapsto> state\<lparr>low := True,
                                                      sentCount := sentCount state + 1\<rparr>),
                          [b]))"

text \<open>
  The event loop of \<^verbatim>\<open>run\<close> on a sequence of balance observations, each with the clock
  reading of its evaluation; the alerts are collected in order.
\<close>

fun observe ::
  "(int \<rightharpoonup> balanceAlertState) \<Rightarrow> (Time \<times> UpstreamBalance option) list
     \<Rightarrow> (int \<rightharpoonup> balanceAlertState) \<times> UpstreamBalance list" where
  "observe states [] = (states, [])"
| "observe states ((now, balance) # rest) =
     (case evaluateBalance now states balance of
        (states', alerts) \<Rightarrow>
          (case observe states' rest of
             (states'', alerts') \<Rightarrow> (states'', alerts @ alerts')))"

section \<open>An executable instance of the library\<close>

text \<open>
  To run the model on concrete inputs the library functions need values. The instance
  below covers the plain inputs used in the examples, where it agrees with Go: ASCII white
  space, decimal literals with an optional sign and fraction, amounts with at most two
  decimals, and the two date-only layouts. A calendar instant is a year, a month, a day
  and the second of the day; \<open>civil_Add\<close> stays within the day, which is all that
  \<^verbatim>\<open>start.Add(24*time.Hour - time.Second)\<close> needs.
\<close>

type_synonym civil = "nat \<times> nat \<times> nat \<times> nat"

definition isSpace :: "char \<Rightarrow> bool" where
  "isSpace c = (c = CHR '' '' \<or> c = CHR 0x09 \<or> c = CHR 0x0A \<or> c = CHR 0x0B
                \<or> c = CHR 0x0C \<or> c = CHR 0x0D)"

definition ascii_TrimSpace :: "string \<Rightarrow> string" where
  "ascii_TrimSpace s = rev (dropWhile isSpace (rev (dropWhile isSpace s)))"

definition digit_val :: "char \<Rightarrow> nat option" where
  "digit_val c =
     map_of [(CHR ''0'', 0), (CHR ''1'', 1), (CHR ''2'', 2), (CHR ''3'', 3), (CHR ''4'', 4),
             (CHR ''5'', 5), (CHR ''6'', 6), (CHR ''7'', 7), (CHR ''8'', 8), (CHR ''9'', 9)] c"

fun digits_val :: "nat \<Rightarrow> string \<Rightarrow> nat option" where
  "digits_val acc [] = Some acc"
| "digits_val acc (c # cs) =
     (case digit_val c of None \<Rightarrow> None | Some d \<Rightarrow> digits_val (10 * acc + d) cs)"

definition unsigned_decimal :: "string \<Rightarrow> real option" where
  "unsigned_decimal body =
     (let whole = takeWhile (\<lambda>c. c \<noteq> CHR ''.'') body;
          rest = dropWhile (\<lambda>c. c \<noteq> CHR ''.'') body
      in if whole = [] then None
         else case digits_val 0 whole of
                None \<Rightarrow> None
              | Some i \<Rightarrow>
                  (case rest of
                     [] \<Rightarrow> Some (real i)
                   | _ # fraction \<Rightarrow>
                       (case digits_val 0 fraction of
                          None \<Rightarrow> None
                        | Some f \<Rightarrow> Some (real i + real f / 10 ^ length fraction))))"

definition decimal_ParseFloat :: "string \<Rightarrow> real option" where
  "decimal_ParseFloat s =
     (case s of
        [] \<Rightarrow> None
      | c # cs \<Rightarrow>
          if c = CHR ''-'' then map_option uminus (unsigned_decimal cs)
          else if c = CHR ''+'' then unsigned_decimal cs
          else unsigned_decimal s)"

definition digit_char :: "nat \<Rightarrow> char" where
  "digit_char n = ''0123456789'' ! (n mod 10)"

definition pad2 :: "nat \<Rightarrow> string" where
  "pad2 n = [digit_char (n div 10), digit_char n]"

definition pad4 :: "nat \<Rightarrow> string" where
  "pad4 n = [digit_char (n div 1000), digit_char (n div 100), digit_char (n div 10), digit_char n]"

fun nat_digits :: "nat \<Rightarrow> string" where
  "nat_digits n = (if n < 10 then [digit_char n] else nat_digits (n div 10) @ [digit_char n])"

declare nat_digits.simps [simp del]

definition decimal_Sprintf_2f :: "real \<Rightarrow> string" where
  "decimal_Sprintf_2f x =
     (let cents = nat \<lfloor>\<bar>x\<bar> * 100\<rfloor>
      in (if x < 0 then ''-'' else []) @ nat_digits (cents div 100) @ ''.'' @ pad2 (cents mod 100))"

definition daysIn :: "nat \<Rightarrow> nat \<Rightarrow> nat" where
  "daysIn y m =
     (if m = 2 then (if y mod 4 = 0 \<and> (y mod 100 \<noteq> 0 \<or> y mod 400 = 0) then 29 else 28)
      else if m = 4 \<or> m = 6 \<or> m = 9 \<or> m = 11 then 30 else 31)"

definition parse_ymd :: "char \<Rightarrow> string \<Rightarrow> civil option" where
  "parse_ymd sep v =
     (if length v = 10 \<and> v ! 4 = sep \<and> v ! 7 = sep then
        (case (digits_val 0 (take 4 v), digits_val 0 (take 2 (drop 5 v)),
               digits_val 0 (drop 8 v)) of
           (Some y, Some m, Some d) \<Rightarrow>
             if 1 \<le> m \<and> m \<le> 12 \<and> 1 \<le> d \<and> d \<le> daysIn y m then Some (y, m, d, 0) else None
         | _ \<Rightarrow> None)
      else None)"

definition civil_Parse :: "string \<Rightarrow> string \<Rightarrow> civil option" where
  "civil_Parse layout v =
     (if layout = ''2006-01-02'' then parse_ymd CHR ''-'' v
      else if layout = ''2006/01/02'' then parse_ymd CHR ''/'' v
      else None)"

definition civil_Format :: "civil \<Rightarrow> string \<Rightarrow> string" where
  "civil_Format t layout =
     (case t of
        (y, m, d, sec) \<Rightarrow>
          if layout = ''2006-01-02'' then pad4 y @ ''-'' @ pad2 m @ ''-'' @ pad2 d else [])"

definition civil_startOfDay :: "civil \<Rightarrow> civil" where
  "civil_startOfDay t = (case t of (y, m, d, sec) \<Rightarrow> (y, m, d, 0))"

definition civil_Add :: "civil \<Rightarrow> int \<Rightarrow> civil" where
  "civil_Add t dur = (case t of (y, m, d, sec) \<Rightarrow> (y, m, d, nat (int sec + dur div time_Second)))"

definition goLib :: "civil lib" where
  "goLib = \<lparr>TrimSpace = ascii_TrimSpace, ParseFloat = decimal_ParseFloat,
            Sprintf_2f = decimal_Sprintf_2f, time_Parse = civil_Parse,
            time_Format = civil_Format, startOfDay = civil_startOfDay,
            time_Add = civil_Add\<rparr>"

section \<open>Conditions used in the properties\<close>




text \<open>The balance of a chat as a reader sees it: 0 when the chat has no document.\<close>

definition balanceBefore :: "store \<Rightarrow> int \<Rightarrow> real" where
  "balanceBefore s chatID = (case balanceColl s chatID of None \<Rightarrow> 0 | Some b \<Rightarrow> Balance b)"


section \<open>Example data\<close>

text \<open>
  A chat with balance 500 and threshold 200, the same chat after the debit of 350 under
  the operation id \<open>d1\<close>, and after a later credit of 100.
\<close>

definition balance_500 :: UpstreamBalance where
  "balance_500 = \<lparr>ChatID = 1, Balance = 500, MinBalance = 200, AlertLimitPerHour = 0,
                   CreatedAt = 0, UpdatedAt = 0\<rparr>"

definition store_500 :: store where
  "store_500 = \<lparr>balanceColl = [1 \<mapsto> balance_500], balanceLogsColl = []\<rparr>"

definition log_d1 :: UpstreamBalanceLog where
  "log_d1 = \<lparr>LogChatID = 1, UserID = 7, Delta = - 350, BalanceAfter = 150,
              EntryType = ''manual_subtract'', Remark = [], OperationID = ''d1'',
              LogCreatedAt = 10\<rparr>"

definition store_150 :: store where
  "store_150 = \<lparr>balanceColl = [1 \<mapsto> balance_500\<lparr>Balance := 150, UpdatedAt := 10\<rparr>],
                 balanceLogsColl = [log_d1]\<rparr>"

definition store_250 :: store where
  "store_250 =
     \<lparr>balanceColl = [1 \<mapsto> balance_500\<lparr>Balance := 250, UpdatedAt := 15\<rparr>],
      balanceLogsColl =
        [log_d1,
         \<lparr>LogChatID = 1, UserID = 7, Delta = 100, BalanceAfter = 250,
          EntryType = ''manual_add'', Remark = [], OperationID = [], LogCreatedAt = 15\<rparr>]\<rparr>"

text \<open>
  A group bound to two interfaces with rates 2 and 1.5 percent, the billing answers for
  5 March 2024 with gross amounts 1000 and 2000, and the stores and results of two
  settlement runs for that day, at the times 100 and 200.
\<close>

definition binding_A :: InterfaceBinding where
  "binding_A = \<lparr>ID = ''pz1'', Name = ''A'', Rate = ''2%''\<rparr>"

definition binding_B :: InterfaceBinding where
  "binding_B = \<lparr>ID = ''pz2'', Name = ''B'', Rate = ''1.5%''\<rparr>"

definition group_AB :: Group where
  "group_AB = \<lparr>TelegramID = 1, InterfaceBindings = [binding_A, binding_B]\<rparr>"

definition day_0305 :: civil where
  "day_0305 = (2024, 3, 5, 0)"

definition pay_AB :: "civil payment" where
  "pay_AB pzid start end' =
     (if pzid = ''pz1'' then
        Inr (Some [Some \<lparr>ItemDate = ''2024-03-04'', ItemGrossAmount = ''700''\<rparr>,
                   Some \<lparr>ItemDate = ''2024-03-05'', ItemGrossAmount = ''1000''\<rparr>])
      else if pzid = ''pz2'' then
        Inr (Some [None, Some \<lparr>ItemDate = ''2024/03/05'', ItemGrossAmount = '' 2000 ''\<rparr>])
      else Inl ''unknown interface'')"

definition item_A :: UpstreamSettlementItem where
  "item_A = \<lparr>InterfaceID = ''pz1'', InterfaceName = ''A'', RatePercent = 2,
              GrossAmount = 1000, Deduction = 20\<rparr>"

definition item_B :: UpstreamSettlementItem where
  "item_B = \<lparr>InterfaceID = ''pz2'', InterfaceName = ''B'', RatePercent = 3 / 2,
              GrossAmount = 2000, Deduction = 30\<rparr>"

definition log_daily :: "Time \<Rightarrow> real \<Rightarrow> UpstreamBalanceLog" where
  "log_daily now after =
     \<lparr>LogChatID = 1, UserID = 0, Delta = - 50, BalanceAfter = after,
      EntryType = ''daily_settlement'', Remark = ''2024-03-05'', OperationID = [],
      LogCreatedAt = now\<rparr>"

definition store_450 :: store where
  "store_450 = \<lparr>balanceColl = [1 \<mapsto> balance_500\<lparr>Balance := 450, UpdatedAt := 100\<rparr>],
                 balanceLogsColl = [log_daily 100 450]\<rparr>"

definition store_400 :: store where
  "store_400 = \<lparr>balanceColl = [1 \<mapsto> balance_500\<lparr>Balance := 400, UpdatedAt := 200\<rparr>],
                 balanceLogsColl = [log_daily 100 450, log_daily 200 400]\<rparr>"

definition result_450 :: "civil SettlementResult" where
  "result_450 = \<lparr>ResultBalance = balance_500\<lparr>Balance := 450, UpdatedAt := 100\<rparr>,
                  Items = [item_A, item_B], ResultDeduction = 50, Target = day_0305\<rparr>"

definition result_400 :: "civil SettlementResult" where
  "result_400 = \<lparr>ResultBalance = balance_500\<lparr>Balance := 400, UpdatedAt := 200\<rparr>,
                  Items = [item_A, item_B], ResultDeduction = 50, Target = day_0305\<rparr>"

text \<open>The same billing collaborator with the second interface timing out.\<close>

definition pay_B_down :: "civil payment" where
  "pay_B_down pzid start end' =
     (if pzid = ''pz2'' then Inl ''timeout'' else pay_AB pzid start end')"




text \<open>
  For the watcher: chat 1 with threshold 100 and two alerts per hour at a given balance,
  and an alert state whose window began at time 0 and has used up both alerts.
\<close>

definition balance_w :: "real \<Rightarrow> UpstreamBalance" where
  "balance_w x = \<lparr>ChatID = 1, Balance = x, MinBalance = 100, AlertLimitPerHour = 2,
                   CreatedAt = 0, UpdatedAt = 0\<rparr>"

definition minute :: int where
  "minute = 60 * time_Second"

definition state_limit_reached :: balanceAlertState where
  "state_limit_reached = \<lparr>low = False, windowStart = Some 0, sentCount = 2\<rparr>"

text \<open>
  The store of chat 1 after its threshold was set to 300, after its alert limit was set
  to 5, and with a second chat created by setting its threshold.
\<close>

definition store_min300 :: store where
  "store_min300 =
     \<lparr>balanceColl = [1 \<mapsto> balance_500\<lparr>MinBalance := 300, UpdatedAt := 11\<rparr>],
      balanceLogsColl =
        [\<lparr>LogChatID = 1, UserID = 0, Delta = 0, BalanceAfter = 500,
          EntryType = ''set_min_balance'', Remark = ''set_min_balance=300.00'',
          OperationID = [], LogCreatedAt = 11\<rparr>]\<rparr>"


definition balance_new2 :: UpstreamBalance where
  "balance_new2 = \<lparr>ChatID = 2, Balance = 0, MinBalance = 300, AlertLimitPerHour = 0,
                    CreatedAt = 10, UpdatedAt = 10\<rparr>"

definition store_new2 :: store where
  "store_new2 = \<lparr>balanceColl = [1 \<mapsto> balance_500, 2 \<mapsto> balance_new2], balanceLogsColl = []\<rparr>"

section \<open>Properties of the repository\<close>

lemma AdjustBalance_cases:
  "fst (AdjustBalance fails now s chatID userID delta entryType remark operationID) = s \<or>
   fst (AdjustBalance fails now s chatID userID delta entryType remark operationID) =
     \<lparr>balanceColl = (balanceColl s)(chatID \<mapsto> incBalance now s chatID delta),
      balanceLogsColl = balanceLogsColl s @
        [\<lparr>LogChatID = chatID, UserID = userID, Delta = delta,
          BalanceAfter = Balance (incBalance now s chatID delta), EntryType = entryType,
          Remark = remark, OperationID = operationID, LogCreatedAt = now\<rparr>]\<rparr>"
  by (simp add: AdjustBalance_def Let_def split: option.splits)

lemma AdjustBalance_keeps_logs:
  "existingLog s c op \<Longrightarrow>
   existingLog (fst (AdjustBalance fails now s chatID userID delta entryType remark operationID)) c op"
  using AdjustBalance_cases [of fails now s chatID userID delta entryType remark operationID]
  by (auto simp: existingLog_def list_ex_iff)

lemma AdjustBalance_keeps_balance:
  "balanceColl s c \<noteq> None \<Longrightarrow>
   balanceColl (fst (AdjustBalance fails now s chatID userID delta entryType remark operationID)) c
     \<noteq> None"
  using AdjustBalance_cases [of fails now s chatID userID delta entryType remark operationID]
  by auto

text \<open>The log is append-only and balance documents are never deleted.\<close>

lemma later_keeps:
  "later s s' \<Longrightarrow> existingLog s c op \<Longrightarrow> balanceColl s c \<noteq> None \<Longrightarrow>
   existingLog s' c op \<and> balanceColl s' c \<noteq> None"
proof (induction rule: later.induct)
  case (later_refl s)
  then show ?case by simp
next
  case (later_AdjustBalance s s' fails now chatID userID delta entryType remark operationID)
  then show ?case
    by (simp add: AdjustBalance_keeps_logs AdjustBalance_keeps_balance)
next
  case (later_SetMinBalance s s' fails now chatID m)
  then show ?case
    by (auto simp: SetMinBalance_def existingLog_def Let_def)
next
  case (later_SetAlertLimit s s' fails now chatID limit)
  then show ?case
    by (auto simp: SetAlertLimit_def existingLog_def Let_def)
qed

lemma AdjustBalance_applied:
  assumes "operationID \<noteq> []"
    and "AdjustBalance fails now s chatID userID delta entryType remark operationID = (s1, Inr b1)"
  shows "existingLog s1 chatID operationID \<and> balanceColl s1 chatID = Some b1"
  using assms
  by (auto simp: AdjustBalance_def Let_def existingLog_def split: if_splits option.splits)

lemma AdjustBalance_replay_state:
  "operationID \<noteq> [] \<Longrightarrow> existingLog s chatID operationID \<Longrightarrow>
   fst (AdjustBalance fails now s chatID userID delta entryType remark operationID) = s"
  by (simp add: AdjustBalance_def split: option.splits)

lemma AdjustBalance_replay_result:
  "operationID \<noteq> [] \<Longrightarrow> existingLog s chatID operationID \<Longrightarrow> balanceColl s chatID = Some b \<Longrightarrow>
   \<not> fails StartSession \<Longrightarrow> \<not> fails FindOne_logs \<Longrightarrow> \<not> fails FindOne_balance \<Longrightarrow>
   AdjustBalance fails now s chatID userID delta entryType remark operationID = (s, Inr b)"
  by (simp add: AdjustBalance_def)

lemma AdjustBalance_retries_replay:
  "operationID \<noteq> [] \<Longrightarrow> existingLog s chatID operationID \<Longrightarrow>
   AdjustBalance_retries s chatID operationID calls = s"
  by (induction s chatID operationID calls rule: AdjustBalance_retries.induct)
     (simp_all add: AdjustBalance_replay_state)

text \<open>
  C1. Once \<^verbatim>\<open>AdjustBalance\<close> has succeeded for a chat with a non-empty operation id, every
  later call for the same chat and operation id leaves the store as it is, whatever its
  delta and whatever else was written in between: no ledger entry is appended and no
  delta is applied. When its reads succeed it returns the balance document currently
  stored. Hence any sequence of retries with that operation id leaves the store, and with
  it the balance and the number of ledger entries, as the single application left it.
\<close>

theorem AdjustBalance_idempotent:
  assumes "operationID \<noteq> []"
    and "AdjustBalance fails0 now0 s chatID userID0 delta0 entryType0 remark0 operationID
           = (s1, Inr b1)"
    and "later s1 s2"
  shows "fst (AdjustBalance fails now s2 chatID userID delta entryType remark operationID) = s2
       \<and> (\<exists>b. balanceColl s2 chatID = Some b \<and>
              (\<not> fails StartSession \<and> \<not> fails FindOne_logs \<and> \<not> fails FindOne_balance \<longrightarrow>
               AdjustBalance fails now s2 chatID userID delta entryType remark operationID
                 = (s2, Inr b)))
       \<and> AdjustBalance_retries s1 chatID operationID calls = s1"
proof -
  from assms(1,2) have a: "existingLog s1 chatID operationID"
    and b: "balanceColl s1 chatID = Some b1"
    using AdjustBalance_applied by blast+
  from later_keeps [OF assms(3) a] b
  have a2: "existingLog s2 chatID operationID" and "balanceColl s2 chatID \<noteq> None"
    by simp_all
  then obtain b where b2: "balanceColl s2 chatID = Some b" by blast
  have "fst (AdjustBalance fails now s2 chatID userID delta entryType remark operationID) = s2"
    using assms(1) a2 by (rule AdjustBalance_replay_state)
  moreover have "\<not> fails StartSession \<and> \<not> fails FindOne_logs \<and> \<not> fails FindOne_balance \<longrightarrow>
      AdjustBalance fails now s2 chatID userID delta entryType remark operationID = (s2, Inr b)"
    using AdjustBalance_replay_result [OF assms(1) a2 b2] by blast
  moreover have "AdjustBalance_retries s1 chatID operationID calls = s1"
    using assms(1) a by (rule AdjustBalance_retries_replay)
  ultimately show ?thesis using b2 by blast
qed

text \<open>
  The scenario of the debit of 350 under \<open>d1\<close>: the balance becomes 150 with one ledger
  entry; after a credit of 100 the replay returns the current balance 250 and writes
  nothing, and two retries in a row leave the store with its single entry.
\<close>

theorem AdjustBalance_idempotent_witness:
  "''d1'' \<noteq> []
   \<and> AdjustBalance healthy 10 store_500 1 7 (- 350) ''manual_subtract'' [] ''d1''
       = (store_150, Inr (balance_500\<lparr>Balance := 150, UpdatedAt := 10\<rparr>))
   \<and> later store_150 store_250
   \<and> AdjustBalance healthy 20 store_250 1 7 (- 350) ''manual_subtract'' [] ''d1''
       = (store_250, Inr (balance_500\<lparr>Balance := 250, UpdatedAt := 15\<rparr>))
   \<and> AdjustBalance_retries store_150 1 ''d1''
        [(healthy, 20, 7, - 350, ''manual_subtract'', []),
         (healthy, 30, 8, - 350, ''manual_subtract'', [])]
       = store_150
   \<and> length (balanceLogsColl store_150) = 1"
proof -
  have h1: "''d1'' \<noteq> []" by simp
  have h2: "AdjustBalance healthy 10 store_500 1 7 (- 350) ''manual_subtract'' [] ''d1''
       = (store_150, Inr (balance_500\<lparr>Balance := 150, UpdatedAt := 10\<rparr>))"
    by (simp add: AdjustBalance_def existingLog_def store_500_def store_150_def log_d1_def
        incBalance_def balance_500_def Let_def)
  have "fst (AdjustBalance healthy 15 store_150 1 7 100 ''manual_add'' [] []) = store_250"
    by (simp add: AdjustBalance_def existingLog_def store_250_def store_150_def log_d1_def
        incBalance_def balance_500_def Let_def)
  with later_AdjustBalance [of store_150 store_150 healthy 15 1 7 100 "''manual_add''" "[]" "[]",
      OF later_refl]
  have h3: "later store_150 store_250" by simp
  have b: "balanceColl store_250 1 = Some (balance_500\<lparr>Balance := 250, UpdatedAt := 15\<rparr>)"
    by (simp add: store_250_def)
  from AdjustBalance_idempotent [OF h1 h2 h3, of healthy 20 7 "- 350" "''manual_subtract''" "[]"
      "[(healthy, 20, 7, - 350, ''manual_subtract'', []),
        (healthy, 30, 8, - 350, ''manual_subtract'', [])]"] b
  have "AdjustBalance healthy 20 store_250 1 7 (- 350) ''manual_subtract'' [] ''d1''
       = (store_250, Inr (balance_500\<lparr>Balance := 250, UpdatedAt := 15\<rparr>))"
    and "AdjustBalance_retries store_150 1 ''d1''
        [(healthy, 20, 7, - 350, ''manual_subtract'', []),
         (healthy, 30, 8, - 350, ''manual_subtract'', [])]
       = store_150"
    by auto
  with h1 h2 h3 show ?thesis by (simp add: store_150_def)
qed

lemma SetMinBalance_Inr:
  assumes "SetMinBalance fails now s chatID m = (s', Inr updated)"
  shows "updated = (case balanceColl s chatID of
                      None \<Rightarrow> \<lparr>ChatID = chatID, Balance = 0, MinBalance = m,
                                AlertLimitPerHour = 0, CreatedAt = now, UpdatedAt = now\<rparr>
                    | Some b \<Rightarrow> b\<lparr>MinBalance := m, UpdatedAt := now\<rparr>)
       \<and> s' = s\<lparr>balanceColl := (balanceColl s)(chatID \<mapsto> updated)\<rparr>"
  using assms by (auto simp: SetMinBalance_def Let_def split: if_splits)


lemma service_SetMinBalance_Inr:
  assumes "service_SetMinBalance L fails1 now1 fails2 now2 s chatID m = (s', Inr updated)"
  shows "\<exists>s1. SetMinBalance fails1 now1 s chatID m = (s1, Inr updated)
            \<and> s' = fst (AdjustBalance fails2 now2 s1 chatID 0 0 upstreamLogTypeThreshold
                          (''set_min_balance='' @ Sprintf_2f L m) [])"
  using assms by (auto simp: service_SetMinBalance_def split: prod.splits sum.splits)


lemma Sprintf_300: "Sprintf_2f goLib 300 = ''300.00''"
  by (simp add: goLib_def decimal_Sprintf_2f_def nat_digits.simps pad2_def digit_char_def)

lemma service_SetMinBalance_500:
  "service_SetMinBalance goLib healthy 10 healthy 11 store_500 1 300
     = (store_min300, Inr (balance_500\<lparr>MinBalance := 300, UpdatedAt := 10\<rparr>))"
  by (simp add: service_SetMinBalance_def SetMinBalance_def AdjustBalance_def incBalance_def
      Sprintf_300 upstreamLogTypeThreshold_def store_500_def store_min300_def balance_500_def
      Let_def)


text \<open>
  C8. After a successful \<^verbatim>\<open>SetMinBalance\<close>, a read of the same chat returns a document
  whose threshold is the value set and whose balance is the balance the chat had before
  the call, 0 when the call created the document. This holds for the repository method
  and for the service method, which follows it with a zero-delta ledger write; it holds
  for every threshold value, the non-negative ones included, and whether or not that
  ledger write succeeds.
\<close>

theorem SetMinBalance_then_GetBalance:
  "(SetMinBalance fails now s chatID m = (s', Inr updated) \<longrightarrow>
      GetBalance healthy s' chatID = Inr (Some updated)
      \<and> MinBalance updated = m \<and> Balance updated = balanceBefore s chatID)
   \<and> (service_SetMinBalance L fails1 now1 fails2 now2 s chatID m = (s'', Inr updated') \<longrightarrow>
      (\<exists>r. GetBalance healthy s'' chatID = Inr (Some r)
            \<and> MinBalance r = m \<and> Balance r = balanceBefore s chatID)
      \<and> MinBalance updated' = m \<and> Balance updated' = balanceBefore s chatID)"
proof (intro conjI impI)
  assume a: "SetMinBalance fails now s chatID m = (s', Inr updated)"
  from SetMinBalance_Inr [OF a]
  show "GetBalance healthy s' chatID = Inr (Some updated)"
    and "MinBalance updated = m" and "Balance updated = balanceBefore s chatID"
    by (auto simp: GetBalance_def balanceBefore_def split: option.splits)
next
  assume a: "service_SetMinBalance L fails1 now1 fails2 now2 s chatID m = (s'', Inr updated')"
  from service_SetMinBalance_Inr [OF a] obtain s1 where
    s1: "SetMinBalance fails1 now1 s chatID m = (s1, Inr updated')"
    and s'': "s'' = fst (AdjustBalance fails2 now2 s1 chatID 0 0 upstreamLogTypeThreshold
                          (''set_min_balance='' @ Sprintf_2f L m) [])"
    by blast
  from SetMinBalance_Inr [OF s1]
  have u: "MinBalance updated' = m" "Balance updated' = balanceBefore s chatID"
    and c1: "balanceColl s1 chatID = Some updated'"
    by (auto simp: balanceBefore_def split: option.splits)
  from u show "MinBalance updated' = m" and "Balance updated' = balanceBefore s chatID"
    by simp_all
  from AdjustBalance_cases [of fails2 now2 s1 chatID 0 0 upstreamLogTypeThreshold
      "''set_min_balance='' @ Sprintf_2f L m" "[]"] s''
  have "balanceColl s'' chatID = Some updated'
        \<or> balanceColl s'' chatID = Some (incBalance now2 s1 chatID 0)"
    using c1 by auto
  with c1 u show "\<exists>r. GetBalance healthy s'' chatID = Inr (Some r)
            \<and> MinBalance r = m \<and> Balance r = balanceBefore s chatID"
    by (auto simp: GetBalance_def incBalance_def)
qed

text \<open>
  Setting the threshold 300 on a chat without a document creates it with balance 0;
  setting it on the chat with balance 500 leaves the balance at 500.
\<close>

theorem SetMinBalance_then_GetBalance_witness:
  "SetMinBalance healthy 10 store_500 2 300 = (store_new2, Inr balance_new2)
   \<and> GetBalance healthy store_new2 2 = Inr (Some balance_new2)
   \<and> MinBalance balance_new2 = 300 \<and> Balance balance_new2 = 0
   \<and> service_SetMinBalance goLib healthy 10 healthy 11 store_500 1 300
       = (store_min300, Inr (balance_500\<lparr>MinBalance := 300, UpdatedAt := 10\<rparr>))
   \<and> GetBalance healthy store_min300 1
       = Inr (Some (balance_500\<lparr>MinBalance := 300, UpdatedAt := 11\<rparr>))
   \<and> Balance (balance_500\<lparr>MinBalance := 300, UpdatedAt := 11\<rparr>) = 500"
proof -
  have h1: "SetMinBalance healthy 10 store_500 2 300 = (store_new2, Inr balance_new2)"
    by (simp add: SetMinBalance_def store_500_def store_new2_def balance_new2_def Let_def)
  note h2 = service_SetMinBalance_500
  have g: "GetBalance healthy store_min300 1
       = Inr (Some (balance_500\<lparr>MinBalance := 300, UpdatedAt := 11\<rparr>))"
    by (simp add: GetBalance_def store_min300_def)
  have b1: "balanceBefore store_500 1 = 500" and b2: "balanceBefore store_500 2 = 0"
    by (simp_all add: balanceBefore_def store_500_def balance_500_def)
  from SetMinBalance_then_GetBalance [where fails = healthy and now = 10 and s = store_500
      and chatID = 2 and m = 300 and s' = store_new2 and updated = balance_new2
      and ?fails1.0 = healthy and ?now1.0 = 10 and ?fails2.0 = healthy and ?now2.0 = 11
      and L = goLib] h1 b2
  have c1: "GetBalance healthy store_new2 2 = Inr (Some balance_new2)"
    and c2: "MinBalance balance_new2 = 300" and c3: "Balance balance_new2 = 0"
    by simp_all
  from SetMinBalance_then_GetBalance [where s = store_500 and chatID = 1 and m = 300
      and ?fails1.0 = healthy and ?now1.0 = 10 and ?fails2.0 = healthy and ?now2.0 = 11
      and L = goLib and s'' = store_min300
      and updated' = "balance_500\<lparr>MinBalance := 300, UpdatedAt := 10\<rparr>"] h2 g b1
  have c4: "Balance (balance_500\<lparr>MinBalance := 300, UpdatedAt := 11\<rparr>) = 500"
    by simp
  from h1 h2 g c1 c2 c3 c4 show ?thesis by simp
qed




section \<open>Properties of the settlement\<close>



lemma settleBinding_Inl:
  "settleBinding L pay binding start end' targetDate = Inl e \<longleftrightarrow>
     (\<exists>err. pay (ID binding) start end' = Inl err \<and> e = QueryBillFailed (ID binding) err)"
  by (auto simp: settleBinding_def Let_def split: sum.splits)


lemma settleBindings_Inl:
  "binding \<in> set bindings \<Longrightarrow> pay (ID binding) start end' = Inl err \<Longrightarrow>
   \<exists>i e. settleBindings L pay start end' targetDate bindings items tot = Inl (QueryBillFailed i e)"
proof (induction bindings arbitrary: items tot)
  case Nil
  then show ?case by simp
next
  case (Cons b bindings)
  show ?case
  proof (cases "settleBinding L pay b start end' targetDate")
    case (Inl e)
    then obtain err' where "e = QueryBillFailed (ID b) err'"
      unfolding settleBinding_Inl by blast
    with Inl show ?thesis by simp
  next
    case (Inr item)
    with Cons.prems have "binding \<in> set bindings"
      by (auto simp: settleBinding_def)
    from Cons.IH [OF this Cons.prems(2)] Inr show ?thesis by simp
  qed
qed

lemma AdjustBalance_no_operationID:
  assumes "AdjustBalance fails now s chatID userID delta entryType remark [] = (s', Inr b)"
  shows "b = incBalance now s chatID delta
       \<and> s' = \<lparr>balanceColl = (balanceColl s)(chatID \<mapsto> b),
               balanceLogsColl = balanceLogsColl s @
                 [\<lparr>LogChatID = chatID, UserID = userID, Delta = delta,
                   BalanceAfter = Balance b, EntryType = entryType,
                   Remark = remark, OperationID = [], LogCreatedAt = now\<rparr>]\<rparr>"
  using assms by (auto simp: AdjustBalance_def Let_def split: if_splits)

lemma SettleDaily_Inr:
  assumes "SettleDaily L pay fails now s grp targetDate = (s', Inr r)"
  shows "settleBindings L pay (startOfDay L targetDate)
           (time_Add L (startOfDay L targetDate) (24 * time_Hour - time_Second)) targetDate
           (InterfaceBindings grp) [] 0 = Inr (Items r, ResultDeduction r)
       \<and> AdjustBalance fails now s (TelegramID grp) 0 (- ResultDeduction r) upstreamLogTypeDaily
           (time_Format L targetDate ''2006-01-02'') [] = (s', Inr (ResultBalance r))
       \<and> Target r = targetDate"
  using assms
  by (auto simp: SettleDaily_def Let_def split: if_splits sum.splits prod.splits)

lemmas goLib_simps =
  goLib_def ascii_TrimSpace_def isSpace_def TrimSuffix_def decimal_ParseFloat_def
  unsigned_decimal_def digit_val_def civil_Parse_def parse_ymd_def civil_Format_def
  pad4_def pad2_def digit_char_def daysIn_def civil_startOfDay_def civil_Add_def
  time_Hour_def time_Second_def

lemma settle_A:
  "settleBinding goLib pay_AB binding_A s e day_0305 =
     Inr \<lparr>InterfaceID = ''pz1'', InterfaceName = ''A'', RatePercent = 2,
          GrossAmount = 1000, Deduction = 20\<rparr>"
  by (simp add: settleBinding_def pay_AB_def binding_A_def day_0305_def
      parseAmountFromSummary_def parseRatePercent_def normalizeSummaryDate_def goLib_simps)

lemma settle_B:
  "settleBinding goLib pay_AB binding_B s e day_0305 =
     Inr \<lparr>InterfaceID = ''pz2'', InterfaceName = ''B'', RatePercent = 3 / 2,
          GrossAmount = 2000, Deduction = 30\<rparr>"
  by (simp add: settleBinding_def pay_AB_def binding_B_def day_0305_def
      parseAmountFromSummary_def parseRatePercent_def normalizeSummaryDate_def goLib_simps)

lemma remark_0305: "time_Format goLib day_0305 ''2006-01-02'' = ''2024-03-05''"
  by (simp add: day_0305_def goLib_simps)

lemma SettleDaily_500:
  "SettleDaily goLib pay_AB healthy 100 store_500 group_AB day_0305 = (store_450, Inr result_450)"
  by (simp add: SettleDaily_def group_AB_def settle_A settle_B item_A_def item_B_def remark_0305 upstreamLogTypeDaily_def
      AdjustBalance_def incBalance_def store_500_def store_450_def result_450_def
      log_daily_def balance_500_def Let_def)

lemma SettleDaily_450:
  "SettleDaily goLib pay_AB healthy 200 store_450 group_AB day_0305 = (store_400, Inr result_400)"
  by (simp add: SettleDaily_def group_AB_def settle_A settle_B item_A_def item_B_def remark_0305 upstreamLogTypeDaily_def
      AdjustBalance_def incBalance_def store_400_def store_450_def result_400_def
      log_daily_def balance_500_def Let_def)

text \<open>
  C2. When the billing query of any binding of the group returns an error,
  \<^verbatim>\<open>SettleDaily\<close> returns an error, the one of the first failing query, and the store is
  exactly as before: no balance is changed and no ledger entry is written, whatever the
  other bindings would have contributed.
\<close>

theorem SettleDaily_query_error:
  assumes "binding \<in> set (InterfaceBindings grp)"
    and "pay (ID binding) (startOfDay L targetDate)
           (time_Add L (startOfDay L targetDate) (24 * time_Hour - time_Second)) = Inl err"
  shows "\<exists>i e. SettleDaily L pay fails now s grp targetDate = (s, Inl (QueryBillFailed i e))"
proof -
  from assms(1) have ne: "length (InterfaceBindings grp) \<noteq> 0" by auto
  have "\<exists>i e. settleBindings L pay (startOfDay L targetDate)
       (time_Add L (startOfDay L targetDate) (24 * time_Hour - time_Second)) targetDate
       (InterfaceBindings grp) [] 0 = Inl (QueryBillFailed i e)"
    using assms by (rule settleBindings_Inl)
  then obtain i e where
    "settleBindings L pay (startOfDay L targetDate)
       (time_Add L (startOfDay L targetDate) (24 * time_Hour - time_Second)) targetDate
       (InterfaceBindings grp) [] 0 = Inl (QueryBillFailed i e)"
    by blast
  with ne show ?thesis by (simp add: SettleDaily_def Let_def)
qed

text \<open>
  The first interface answers and the second times out: the run fails and the store with
  balance 500 is untouched.
\<close>

theorem SettleDaily_query_error_witness:
  "binding_B \<in> set (InterfaceBindings group_AB)
   \<and> pay_B_down (ID binding_B) (startOfDay goLib day_0305)
        (time_Add goLib (startOfDay goLib day_0305) (24 * time_Hour - time_Second))
       = Inl ''timeout''
   \<and> SettleDaily goLib pay_B_down healthy 100 store_500 group_AB day_0305
       = (store_500, Inl (QueryBillFailed ''pz2'' ''timeout''))"
proof -
  have h1: "binding_B \<in> set (InterfaceBindings group_AB)"
    by (simp add: group_AB_def)
  have h2: "pay_B_down (ID binding_B) (startOfDay goLib day_0305)
        (time_Add goLib (startOfDay goLib day_0305) (24 * time_Hour - time_Second))
       = Inl ''timeout''"
    by (simp add: pay_B_down_def binding_B_def)
  from SettleDaily_query_error [where pay = pay_B_down and L = goLib and targetDate = day_0305
      and grp = group_AB and binding = binding_B and err = "''timeout''" and fails = healthy
      and now = 100 and s = store_500, OF h1 h2]
  obtain i e where r: "SettleDaily goLib pay_B_down healthy 100 store_500 group_AB day_0305
       = (store_500, Inl (QueryBillFailed i e))"
    by blast
  have "settleBinding goLib pay_B_down binding_A s e day_0305 = Inr item_A" for s e
    using settle_A [of s e] by (simp add: settleBinding_def pay_B_down_def binding_A_def item_A_def)
  moreover have "settleBinding goLib pay_B_down binding_B s e day_0305
       = Inl (QueryBillFailed ''pz2'' ''timeout'')" for s e
    by (simp add: settleBinding_def pay_B_down_def binding_B_def)
  ultimately have "snd (SettleDaily goLib pay_B_down healthy 100 store_500 group_AB day_0305)
       = Inl (QueryBillFailed ''pz2'' ''timeout'')"
    by (simp add: SettleDaily_def group_AB_def Let_def)
  with r have "SettleDaily goLib pay_B_down healthy 100 store_500 group_AB day_0305
       = (store_500, Inl (QueryBillFailed ''pz2'' ''timeout''))"
    by simp
  with h1 h2 show ?thesis by simp
qed



text \<open>
  C4. \<^verbatim>\<open>SettleDaily\<close> gives the ledger no operation id, so nothing ties a run to its day.
  When it succeeds twice for the same group and target date, the second run computes the
  same deduction, subtracts it from the balance a second time and appends a second
  daily-settlement entry; both entries carry an empty operation id.
\<close>

theorem SettleDaily_twice:
  assumes "SettleDaily L pay fails1 now1 s grp targetDate = (s1, Inr r1)"
    and "SettleDaily L pay fails2 now2 s1 grp targetDate = (s2, Inr r2)"
  shows "ResultDeduction r2 = ResultDeduction r1
       \<and> Balance (ResultBalance r1) =
            (case balanceColl s (TelegramID grp) of None \<Rightarrow> 0 | Some b \<Rightarrow> Balance b)
              - ResultDeduction r1
       \<and> Balance (ResultBalance r2) = Balance (ResultBalance r1) - ResultDeduction r1
       \<and> balanceColl s2 (TelegramID grp) = Some (ResultBalance r2)
       \<and> balanceLogsColl s2 = balanceLogsColl s @
            [\<lparr>LogChatID = TelegramID grp, UserID = 0, Delta = - ResultDeduction r1,
              BalanceAfter = Balance (ResultBalance r1), EntryType = upstreamLogTypeDaily,
              Remark = time_Format L targetDate ''2006-01-02'', OperationID = [],
              LogCreatedAt = now1\<rparr>,
             \<lparr>LogChatID = TelegramID grp, UserID = 0, Delta = - ResultDeduction r1,
              BalanceAfter = Balance (ResultBalance r2), EntryType = upstreamLogTypeDaily,
              Remark = time_Format L targetDate ''2006-01-02'', OperationID = [],
              LogCreatedAt = now2\<rparr>]"
proof -
  from SettleDaily_Inr [OF assms(1)] SettleDaily_Inr [OF assms(2)]
  have d: "ResultDeduction r2 = ResultDeduction r1" by simp
  from SettleDaily_Inr [OF assms(1)]
  have a1: "AdjustBalance fails1 now1 s (TelegramID grp) 0 (- ResultDeduction r1)
                upstreamLogTypeDaily (time_Format L targetDate ''2006-01-02'') []
                = (s1, Inr (ResultBalance r1))"
    by simp
  from SettleDaily_Inr [OF assms(2)] d
  have a2: "AdjustBalance fails2 now2 s1 (TelegramID grp) 0 (- ResultDeduction r1)
                upstreamLogTypeDaily (time_Format L targetDate ''2006-01-02'') []
                = (s2, Inr (ResultBalance r2))"
    by simp
  note f1 = AdjustBalance_no_operationID [OF a1]
  note f2 = AdjustBalance_no_operationID [OF a2]
  from f1 have c1: "balanceColl s1 (TelegramID grp) = Some (ResultBalance r1)" by simp
  from f1 have b1: "Balance (ResultBalance r1) =
            (case balanceColl s (TelegramID grp) of None \<Rightarrow> 0 | Some b \<Rightarrow> Balance b)
              - ResultDeduction r1"
    by (simp add: incBalance_def split: option.splits)
  from f2 c1 have b2: "Balance (ResultBalance r2) = Balance (ResultBalance r1) - ResultDeduction r1"
    by (simp add: incBalance_def)
  from f2 have c2: "balanceColl s2 (TelegramID grp) = Some (ResultBalance r2)" by simp
  from f1 have l1: "balanceLogsColl s1 = balanceLogsColl s @
            [\<lparr>LogChatID = TelegramID grp, UserID = 0, Delta = - ResultDeduction r1,
              BalanceAfter = Balance (ResultBalance r1), EntryType = upstreamLogTypeDaily,
              Remark = time_Format L targetDate ''2006-01-02'', OperationID = [],
              LogCreatedAt = now1\<rparr>]"
    by simp
  from f2 have l2: "balanceLogsColl s2 = balanceLogsColl s1 @
            [\<lparr>LogChatID = TelegramID grp, UserID = 0, Delta = - ResultDeduction r1,
              BalanceAfter = Balance (ResultBalance r2), EntryType = upstreamLogTypeDaily,
              Remark = time_Format L targetDate ''2006-01-02'', OperationID = [],
              LogCreatedAt = now2\<rparr>]"
    by simp
  from d b1 b2 c2 l1 l2 show ?thesis by simp
qed

text \<open>Two runs for 5 March take the balance from 500 to 450 and then to 400.\<close>

theorem SettleDaily_twice_witness:
  "SettleDaily goLib pay_AB healthy 100 store_500 group_AB day_0305 = (store_450, Inr result_450)
   \<and> SettleDaily goLib pay_AB healthy 200 store_450 group_AB day_0305 = (store_400, Inr result_400)
   \<and> Balance (ResultBalance result_450) = 450
   \<and> Balance (ResultBalance result_400) = 400
   \<and> map Delta (balanceLogsColl store_400) = [- 50, - 50]
   \<and> map EntryType (balanceLogsColl store_400) = [''daily_settlement'', ''daily_settlement'']
   \<and> map OperationID (balanceLogsColl store_400) = [[], []]"
proof -
  from SettleDaily_twice [OF SettleDaily_500 SettleDaily_450]
  have "Balance (ResultBalance result_450) =
            (case balanceColl store_500 (TelegramID group_AB) of None \<Rightarrow> 0 | Some b \<Rightarrow> Balance b)
              - ResultDeduction result_450"
    and "Balance (ResultBalance result_400) =
           Balance (ResultBalance result_450) - ResultDeduction result_450"
    and "map Delta (balanceLogsColl store_400) =
           map Delta (balanceLogsColl store_500) @
             [- ResultDeduction result_450, - ResultDeduction result_450]"
    and "map EntryType (balanceLogsColl store_400) =
           map EntryType (balanceLogsColl store_500) @ [upstreamLogTypeDaily, upstreamLogTypeDaily]"
    and "map OperationID (balanceLogsColl store_400) =
           map OperationID (balanceLogsColl store_500) @ [[], []]"
    by simp_all
  then have "Balance (ResultBalance result_450) = 450"
    and "Balance (ResultBalance result_400) = 400"
    and "map Delta (balanceLogsColl store_400) = [- 50, - 50]"
    and "map EntryType (balanceLogsColl store_400) = [''daily_settlement'', ''daily_settlement'']"
    and "map OperationID (balanceLogsColl store_400) = [[], []]"
    by (simp_all add: store_500_def group_AB_def result_450_def balance_500_def
        upstreamLogTypeDaily_def)
  with SettleDaily_500 SettleDaily_450 show ?thesis by simp
qed





section \<open>Properties of the balance watcher\<close>

text \<open>
  C3, as the code has it. On a low observation of a chat that is not marked low, made
  inside the current window when the alerts sent in that window have reached the limit,
  \<^verbatim>\<open>evaluateBalance\<close> sends no alert and leaves the state of the chat as it was: the chat
  is not marked low and the sent count does not change.
\<close>

theorem evaluateBalance_limit_reached:
  assumes "0 < MinBalance b" and "Balance b < MinBalance b"
    and "states (ChatID b) = Some st" and "\<not> low st"
    and "windowStart st = Some ws" and "now - ws < time_Hour"
    and "(if AlertLimitPerHour b \<le> 0 then defaultAlertLimitPerHour else AlertLimitPerHour b)
           \<le> sentCount st"
  shows "evaluateBalance now states (Some b) = (states, [])
       \<and> (\<exists>st'. fst (evaluateBalance now states (Some b)) (ChatID b) = Some st' \<and> \<not> low st')"
proof -
  from assms(3) have "states(ChatID b \<mapsto> st) = states" by (rule map_upd_triv)
  with assms have "evaluateBalance now states (Some b) = (states, [])"
    by (simp add: evaluateBalance_def Let_def)
  with assms(3,4) show ?thesis by simp
qed

text \<open>Balance 80 under the threshold 100, half an hour into a window with both alerts used.\<close>

theorem evaluateBalance_limit_reached_witness:
  "0 < MinBalance (balance_w 80) \<and> Balance (balance_w 80) < MinBalance (balance_w 80)
   \<and> [1 \<mapsto> state_limit_reached] (ChatID (balance_w 80)) = Some state_limit_reached
   \<and> \<not> low state_limit_reached \<and> windowStart state_limit_reached = Some 0
   \<and> 30 * minute - 0 < time_Hour
   \<and> AlertLimitPerHour (balance_w 80) \<le> sentCount state_limit_reached
   \<and> evaluateBalance (30 * minute) [1 \<mapsto> state_limit_reached] (Some (balance_w 80))
       = ([1 \<mapsto> state_limit_reached], [])"
proof -
  have h1: "0 < MinBalance (balance_w 80)" by (simp add: balance_w_def)
  have h2: "Balance (balance_w 80) < MinBalance (balance_w 80)" by (simp add: balance_w_def)
  have h3: "[1 \<mapsto> state_limit_reached] (ChatID (balance_w 80)) = Some state_limit_reached"
    by (simp add: balance_w_def)
  have h4: "\<not> low state_limit_reached" by (simp add: state_limit_reached_def)
  have h5: "windowStart state_limit_reached = Some 0" by (simp add: state_limit_reached_def)
  have h6: "30 * minute - 0 < time_Hour" by (simp add: minute_def time_Hour_def time_Second_def)
  have h7: "(if AlertLimitPerHour (balance_w 80) \<le> 0 then defaultAlertLimitPerHour
             else AlertLimitPerHour (balance_w 80)) \<le> sentCount state_limit_reached"
    by (simp add: balance_w_def state_limit_reached_def)
  from evaluateBalance_limit_reached [where b = "balance_w 80"
      and states = "[1 \<mapsto> state_limit_reached]" and st = state_limit_reached and ws = 0
      and now = "30 * minute", OF h1 h2 h3 h4 h5 h6 h7] h1 h2 h3 h4 h5 h6 h7
  show ?thesis by (simp add: balance_w_def state_limit_reached_def)
qed

text \<open>
  C3, as stated, says that the transition is recorded as low. At the same input the flag
  of the chat is still false after the evaluation.
\<close>

theorem evaluateBalance_limit_reached_counterexample:
  "fst (evaluateBalance (30 * minute) [1 \<mapsto> state_limit_reached] (Some (balance_w 80))) 1
     = Some \<lparr>low = False, windowStart = Some 0, sentCount = 2\<rparr>"
  by (simp add: evaluateBalance_def balance_w_def state_limit_reached_def minute_def
      time_Hour_def time_Second_def Let_def)

lemma evaluateBalance_ok:
  assumes "0 < MinBalance b" and "\<not> Balance b < MinBalance b" and "states (ChatID b) = None"
  shows "evaluateBalance now states (Some b)
           = (states(ChatID b \<mapsto> \<lparr>low = False, windowStart = Some now, sentCount = 0\<rparr>), [])"
  using assms by (simp add: evaluateBalance_def Let_def)

lemma evaluateBalance_alert:
  assumes "0 < MinBalance b" and "Balance b < MinBalance b"
    and "states (ChatID b) = Some \<lparr>low = False, windowStart = Some ws, sentCount = 0\<rparr>"
    and "now - ws < time_Hour" and "1 \<le> AlertLimitPerHour b"
  shows "evaluateBalance now states (Some b)
           = (states(ChatID b \<mapsto> \<lparr>low = True, windowStart = Some ws, sentCount = 1\<rparr>), [b])"
  using assms by (simp add: evaluateBalance_def Let_def)

lemma evaluateBalance_suppressed:
  assumes "0 < MinBalance b" and "Balance b < MinBalance b"
    and "states (ChatID b) = Some st" and "low st"
    and "windowStart st = Some ws" and "now - ws < time_Hour"
  shows "evaluateBalance now states (Some b) = (states, [])"
proof -
  from assms(3) have "states(ChatID b \<mapsto> st) = states" by (rule map_upd_triv)
  with assms show ?thesis by (simp add: evaluateBalance_def Let_def)
qed

text \<open>
  C6, as the code has it. For a chat with threshold 100 and a limit of at least two alerts
  per hour that the watcher has not seen before, the balances 150, 80, 90 and 60 observed
  within one window give exactly one alert, on the step from 150 to 80. The balances 90
  and 60 are both below 100, so the chat stays marked low and both observations are
  suppressed.
\<close>

theorem observe_sequence:
  assumes "MinBalance b = 100" and "2 \<le> AlertLimitPerHour b" and "states (ChatID b) = None"
    and "t0 \<le> t1" and "t1 \<le> t2" and "t2 \<le> t3" and "t3 - t0 < time_Hour"
  shows "observe states
           [(t0, Some (b\<lparr>Balance := 150\<rparr>)), (t1, Some (b\<lparr>Balance := 80\<rparr>)),
            (t2, Some (b\<lparr>Balance := 90\<rparr>)), (t3, Some (b\<lparr>Balance := 60\<rparr>))]
         = (states(ChatID b \<mapsto> \<lparr>low = True, windowStart = Some t0, sentCount = 1\<rparr>),
            [b\<lparr>Balance := 80\<rparr>])"
proof -
  let ?s1 = "states(ChatID b \<mapsto> \<lparr>low = False, windowStart = Some t0, sentCount = 0\<rparr>)"
  let ?s2 = "states(ChatID b \<mapsto> \<lparr>low = True, windowStart = Some t0, sentCount = 1\<rparr>)"
  have e1: "evaluateBalance t0 states (Some (b\<lparr>Balance := 150\<rparr>)) = (?s1, [])"
    using evaluateBalance_ok [of "b\<lparr>Balance := 150\<rparr>" states t0] assms by simp
  have e2: "evaluateBalance t1 ?s1 (Some (b\<lparr>Balance := 80\<rparr>)) = (?s2, [b\<lparr>Balance := 80\<rparr>])"
    using evaluateBalance_alert [of "b\<lparr>Balance := 80\<rparr>" ?s1 t0 t1] assms by simp
  have e3: "evaluateBalance t2 ?s2 (Some (b\<lparr>Balance := 90\<rparr>)) = (?s2, [])"
    using evaluateBalance_suppressed [of "b\<lparr>Balance := 90\<rparr>" ?s2
        "\<lparr>low = True, windowStart = Some t0, sentCount = 1\<rparr>" t0 t2] assms
    by simp
  have e4: "evaluateBalance t3 ?s2 (Some (b\<lparr>Balance := 60\<rparr>)) = (?s2, [])"
    using evaluateBalance_suppressed [of "b\<lparr>Balance := 60\<rparr>" ?s2
        "\<lparr>low = True, windowStart = Some t0, sentCount = 1\<rparr>" t0 t3] assms
    by simp
  show ?thesis by (simp add: e1 e2 e3 e4)
qed

text \<open>The four observations one minute apart.\<close>

theorem observe_sequence_witness:
  "MinBalance (balance_w 0) = 100 \<and> 2 \<le> AlertLimitPerHour (balance_w 0)
   \<and> Map.empty (ChatID (balance_w 0)) = (None :: balanceAlertState option)
   \<and> (0::int) \<le> minute \<and> minute \<le> 2 * minute \<and> 2 * minute \<le> 3 * minute
   \<and> 3 * minute - 0 < time_Hour
   \<and> observe Map.empty
          [(0, Some (balance_w 150)), (minute, Some (balance_w 80)),
           (2 * minute, Some (balance_w 90)), (3 * minute, Some (balance_w 60))]
       = ([1 \<mapsto> \<lparr>low = True, windowStart = Some 0, sentCount = 1\<rparr>], [balance_w 80])"
proof -
  have h1: "MinBalance (balance_w 0) = 100" by (simp add: balance_w_def)
  have h2: "2 \<le> AlertLimitPerHour (balance_w 0)" by (simp add: balance_w_def)
  have h3: "Map.empty (ChatID (balance_w 0)) = (None :: balanceAlertState option)" by simp
  have h4: "(0::int) \<le> minute" and h5: "minute \<le> 2 * minute" and h6: "2 * minute \<le> 3 * minute"
    and h7: "3 * minute - 0 < time_Hour"
    by (simp_all add: minute_def time_Hour_def time_Second_def)
  from observe_sequence [where b = "balance_w 0" and states = Map.empty and ?t0.0 = 0
      and ?t1.0 = minute and ?t2.0 = "2 * minute" and ?t3.0 = "3 * minute",
      OF h1 h2 h3 h4 h5 h6 h7] h1 h2 h3 h4 h5 h6 h7
  show ?thesis by (simp add: balance_w_def)
qed

text \<open>
  C6, as stated, expects two alerts, the second on the step from 90 to 60. The watcher
  sends one.
\<close>

theorem observe_sequence_counterexample:
  "snd (observe Map.empty
          [(0, Some (balance_w 150)), (minute, Some (balance_w 80)),
           (2 * minute, Some (balance_w 90)), (3 * minute, Some (balance_w 60))])
     = [balance_w 80]"
  by (simp add: evaluateBalance_def balance_w_def minute_def time_Hour_def time_Second_def Let_def)

end
